theory Spec2Isabelle
  imports Main
begin

section \<open>The event-socket router and handler of eventsocket.py\<close>

text \<open>
  The module has two classes. \<^verbatim>\<open>EventSocketRouter\<close> owns the listener table, the list of
  live sockets and the id counter; \<^verbatim>\<open>EventSocketHandler\<close> is one websocket connection, which
  parses every text frame as an event name followed by a JSON payload and hands it to the
  router. Mutation is modelled by state passing, and every \<^verbatim>\<open>raise\<close> is a value: a
  procedure returns the state it leaves behind together with the exception that escapes
  it, if any.

  Three things the module calls are not defined in it and are parameters of the model:
  \<^verbatim>\<open>json.loads\<close> and \<^verbatim>\<open>json.dumps\<close> of the standard library, and the bodies of the
  callables the application registers (listeners and the open/close hooks). The regular
  expression of \<^verbatim>\<open>on_message\<close> is part of the source and is written out.
\<close>

subsection \<open>Exceptions, log records, objects\<close>

text \<open>
  An exception is known by its class. The classes that the module names or can raise are
  constructors of their own; a class defined anywhere else is \<open>Derived\<close>, with its name and
  its direct base classes among the classes of this type (none, for a class that derives
  from \<^verbatim>\<open>Exception\<close> only).
\<close>

datatype exn =
  KeyError | IndexError | TypeError | ValueError | AttributeError | JSONDecodeError
  | Derived string "exn list"

text \<open>
  \<^verbatim>\<open>isinstance(e, c)\<close>: the class of the exception is \<open>c\<close> or derives from it, directly or
  through its bases. Of the built-in classes listed, \<^verbatim>\<open>JSONDecodeError\<close> derives from
  \<^verbatim>\<open>ValueError\<close>.
\<close>

fun isinstance :: "exn \<Rightarrow> exn \<Rightarrow> bool" where
  "isinstance (Derived n bases) c = (Derived n bases = c \<or> list_ex (\<lambda>b. isinstance b c) bases)"
| "isinstance JSONDecodeError c = (c = JSONDecodeError \<or> c = ValueError)"
| "isinstance e c = (e = c)"

text \<open>Whether the clause \<^verbatim>\<open>except c:\<close> handles what the body of its \<^verbatim>\<open>try\<close> raised.\<close>

definition except_clause :: "exn \<Rightarrow> exn option \<Rightarrow> bool" where
  "except_clause c raised = (case raised of None \<Rightarrow> False | Some e \<Rightarrow> isinstance e c)"

datatype level = DEBUG | INFO | WARNING

datatype pyval = PStr string | PInt int | PNone

text \<open>A call of \<^verbatim>\<open>_logger\<close>: the level, the format string and the arguments.\<close>

type_synonym log_record = "level \<times> string \<times> pyval list"

text \<open>
  An \<^verbatim>\<open>EventSocketHandler\<close> object is known by its identity (the class defines no
  \<^verbatim>\<open>__eq__\<close>, so \<^verbatim>\<open>list.remove\<close> compares identities); its attributes are those that
  \<^verbatim>\<open>initialize\<close> sets.
\<close>

type_synonym ref = nat

record handler =
  id_attr :: "int option"
  url_param :: "string option"
  count :: int

text \<open>
  The router's \<^verbatim>\<open>on_open\<close> and \<^verbatim>\<open>on_close\<close> attributes hold the lambdas of \<^verbatim>\<open>__init__\<close>
  until the application assigns a callable of its own.
\<close>

datatype 'c hook = Undefined_open | Undefined_close | Hook 'c

record 'c router =
  listeners :: "string \<rightharpoonup> 'c"
  sockets :: "ref list"
  next_sid :: int
  router_on_open :: "'c hook"
  router_on_close :: "'c hook"

text \<open>
  The state a call can touch: the router (every handler is initialised with the same one),
  the handler objects, the log, the frames given to \<^verbatim>\<open>write_message\<close>, and whatever else
  the application's callables own.
\<close>

record ('c, 'a) world =
  router :: "'c router"
  handlers :: "ref \<Rightarrow> handler"
  logged :: "log_record list"
  written :: "(ref \<times> string) list"
  app :: 'a

type_synonym ('c, 'a) outcome = "('c, 'a) world \<times> exn option"

text \<open>What calling a listener with \<^verbatim>\<open>(data, socket)\<close>, or a hook with \<^verbatim>\<open>(socket)\<close>, does.\<close>

type_synonym ('c, 'j, 'a) listener_call =
  "'c \<Rightarrow> 'j \<Rightarrow> ref \<Rightarrow> ('c, 'a) world \<Rightarrow> ('c, 'a) outcome"

type_synonym ('c, 'a) hook_call =
  "'c \<Rightarrow> ref \<Rightarrow> ('c, 'a) world \<Rightarrow> ('c, 'a) outcome"

definition logger :: "level \<Rightarrow> string \<Rightarrow> pyval list \<Rightarrow> ('c, 'a) world \<Rightarrow> ('c, 'a) world" where
  "logger lvl fmt args w = w\<lparr>logged := logged w @ [(lvl, fmt, args)]\<rparr>"

definition id_of :: "('c, 'a) world \<Rightarrow> ref \<Rightarrow> pyval" where
  "id_of w self = (case id_attr (handlers w self) of None \<Rightarrow> PNone | Some i \<Rightarrow> PInt i)"

definition count_of :: "('c, 'a) world \<Rightarrow> ref \<Rightarrow> pyval" where
  "count_of w self = PInt (count (handlers w self))"

subsection \<open>EventSocketRouter\<close>

definition init_router :: "'c router" where
  "init_router =
     \<lparr>listeners = Map.empty, sockets = [], next_sid = 0,
      router_on_open = Undefined_open, router_on_close = Undefined_close\<rparr>"

text \<open>
  \<^verbatim>\<open>get_socket_by_id\<close>: \<^verbatim>\<open>self.sockets[id]\<close>, with \<^verbatim>\<open>IndexError\<close> turned into \<^verbatim>\<open>None\<close>.
  Python adds the length to a negative index before it checks the range.
\<close>

definition get_socket_by_id :: "int \<Rightarrow> 'c router \<Rightarrow> ref option" where
  "get_socket_by_id i r =
     (let n = int (length (sockets r));
          j = (if i < 0 then i + n else i)
      in if 0 \<le> j \<and> j < n then Some (sockets r ! nat j) else None)"

definition register_listener :: "string \<Rightarrow> 'c \<Rightarrow> 'c router \<Rightarrow> 'c router" where
  "register_listener event listener r = r\<lparr>listeners := (listeners r)(event \<mapsto> listener)\<rparr>"

text \<open>\<^verbatim>\<open>register_socket\<close> appends, increments the counter and returns the counter minus one.\<close>

definition register_socket :: "ref \<Rightarrow> 'c router \<Rightarrow> int \<times> 'c router" where
  "register_socket socket r =
     (let r1 = r\<lparr>sockets := sockets r @ [socket]\<rparr>;
          r2 = r1\<lparr>next_sid := next_sid r1 + 1\<rparr>
      in (next_sid r2 - 1, r2))"

text \<open>
  \<^verbatim>\<open>on(arg)\<close> branches on the type of its argument: a \<^verbatim>\<open>str\<close>, a callable, or anything
  else. For a string it returns the inner function \<^verbatim>\<open>decorator\<close>, which registers when it
  is applied; for a callable it reads \<^verbatim>\<open>arg.__name__\<close> (an \<^verbatim>\<open>AttributeError\<close> where the
  callable has none).
\<close>

datatype 'c arg = Str string | Callable 'c | Other

datatype 'c returned = Decorator string | Function 'c

definition decorator :: "string \<Rightarrow> 'c \<Rightarrow> 'c router \<Rightarrow> 'c router \<times> 'c" where
  "decorator arg func r = (register_listener arg func r, func)"

fun on :: "('c \<Rightarrow> string option) \<Rightarrow> 'c arg \<Rightarrow> 'c router \<Rightarrow> 'c router \<times> (exn + 'c returned)" where
  "on name (Str s) r = (r, Inr (Decorator s))"
| "on name (Callable f) r =
     (case name f of
        None \<Rightarrow> (r, Inl AttributeError)
      | Some n \<Rightarrow> (register_listener n f r, Inr (Function f)))"
| "on name Other r = (r, Inl TypeError)"

text \<open>
  \<^verbatim>\<open>on_received_message\<close>: the body of the \<^verbatim>\<open>try\<close> looks the listener up (a \<^verbatim>\<open>KeyError\<close>
  where the event has none) and calls it. The handler is \<^verbatim>\<open>except KeyError or IndexError\<close>;
  the expression \<^verbatim>\<open>KeyError or IndexError\<close> is evaluated first and is its first operand, a
  class being true. The clause handles every instance of that class, so also an exception
  whose class derives from \<^verbatim>\<open>KeyError\<close>.
\<close>

definition caught_class :: exn where
  "caught_class = KeyError"

definition call_listener ::
  "('c, 'j, 'a) listener_call \<Rightarrow> string \<Rightarrow> 'j \<Rightarrow> ref \<Rightarrow> ('c, 'a) world \<Rightarrow> ('c, 'a) outcome" where
  "call_listener call event data socket w =
     (case listeners (router w) event of
        None \<Rightarrow> (w, Some KeyError)
      | Some listener \<Rightarrow> call listener data socket w)"

definition on_received_message ::
  "('c, 'j, 'a) listener_call \<Rightarrow> string \<Rightarrow> 'j \<Rightarrow> ref \<Rightarrow> ('c, 'a) world \<Rightarrow> ('c, 'a) outcome" where
  \<open>on_received_message call event data socket w =
     (let (w1, raised) = call_listener call event data socket w
      in if except_clause caught_class raised
         then (logger WARNING ''No listener was found for event "%s"'' [PStr event] w1, None)
         else (w1, raised))\<close>

subsection \<open>The regular expression of \<^verbatim>\<open>on_message\<close>\<close>

text \<open>
  \<^verbatim>\<open>re.match(r'(.+)((?:[{\[]).+)', message)\<close> matches at the start of the message and need
  not reach its end. Without \<^verbatim>\<open>DOTALL\<close> a dot is any character but a newline. Group 1 is
  greedy: it first takes every character up to the first newline, and gives characters
  back one at a time until group 2 matches what follows: a bracket, then as many dots as
  there are, and at least one. Group 1 keeps at least one character. A message is a
  \<open>string\<close>; of its characters the pattern tells apart only the newline and the two
  brackets.
\<close>

definition dot :: "char \<Rightarrow> bool" where
  "dot c = (c \<noteq> CHR 0x0A)"

definition bracket :: "char \<Rightarrow> bool" where
  "bracket c = (c = CHR ''{'' \<or> c = CHR ''['')"

fun group2 :: "string \<Rightarrow> string option" where
  "group2 (b # c # rest) =
     (if bracket b \<and> dot c then Some (b # takeWhile dot (c # rest)) else None)"
| "group2 _ = None"

fun backtrack :: "string \<Rightarrow> nat \<Rightarrow> (string \<times> string) option" where
  "backtrack s 0 = None"
| "backtrack s (Suc k) =
     (case group2 (drop (Suc k) s) of
        Some g \<Rightarrow> Some (take (Suc k) s, g)
      | None \<Rightarrow> backtrack s k)"

definition re_match :: "string \<Rightarrow> (string \<times> string) option" where
  "re_match message = backtrack message (length (takeWhile dot message))"

subsection \<open>EventSocketHandler\<close>

definition initialize :: handler where
  "initialize = \<lparr>id_attr = None, url_param = None, count = 0\<rparr>"

text \<open>Calling what the router's hook attribute holds.\<close>

fun call_hook :: "('c, 'a) hook_call \<Rightarrow> 'c hook \<Rightarrow> ref \<Rightarrow> ('c, 'a) world \<Rightarrow> ('c, 'a) outcome" where
  "call_hook call Undefined_open s w =
     (logger WARNING ''Socket open event undefined, not triggering it'' [] w, None)"
| "call_hook call Undefined_close s w =
     (logger WARNING ''Socket close event undefined, not triggering it'' [] w, None)"
| "call_hook call (Hook f) s w = call f s w"

definition add_to_router :: "('c, 'a) hook_call \<Rightarrow> ref \<Rightarrow> ('c, 'a) world \<Rightarrow> ('c, 'a) outcome" where
  "add_to_router call self w =
     (let (i, r) = register_socket self (router w);
          w1 = w\<lparr>router := r, handlers := (handlers w)(self := (handlers w self)\<lparr>id_attr := Some i\<rparr>)\<rparr>;
          w2 = logger INFO ''registered socket #%s'' [PInt i] w1
      in call_hook call (router_on_open (router w2)) self w2)"

text \<open>
  Lines 124 to 127 of \<^verbatim>\<open>on_message\<close>: the match, its two groups and \<^verbatim>\<open>json.loads\<close>. Where
  the pattern does not match, \<^verbatim>\<open>match\<close> is \<^verbatim>\<open>None\<close> and \<^verbatim>\<open>match.group(1)\<close> raises
  \<^verbatim>\<open>AttributeError\<close>.
\<close>

definition parse :: "(string \<Rightarrow> exn + 'j) \<Rightarrow> string \<Rightarrow> exn + (string \<times> 'j)" where
  "parse loads message =
     (case re_match message of
        None \<Rightarrow> Inl AttributeError
      | Some (event, encoded_data) \<Rightarrow>
          (case loads encoded_data of
             Inl e \<Rightarrow> Inl e
           | Inr data \<Rightarrow> Inr (event, data)))"

text \<open>The body of the \<^verbatim>\<open>try\<close> of \<^verbatim>\<open>on_message\<close>; the dispatch is inside it.\<close>

definition on_message_try ::
  "(string \<Rightarrow> exn + 'j) \<Rightarrow> ('c, 'j, 'a) listener_call \<Rightarrow> ref \<Rightarrow> string \<Rightarrow> ('c, 'a) world
     \<Rightarrow> ('c, 'a) outcome" where
  \<open>on_message_try loads call self message w =
     (case parse loads message of
        Inl e \<Rightarrow> (w, Some e)
      | Inr (event, data) \<Rightarrow>
          (let (w1, raised) = on_received_message call event data self w
           in if raised = None
              then (logger INFO ''socket #%s triggered event "%s" by message #%s''
                      [id_of w1 self, count_of w1 self, PStr event] w1, None)
              else (w1, raised)))\<close>

definition increment_count :: "ref \<Rightarrow> ('c, 'a) world \<Rightarrow> ('c, 'a) world" where
  "increment_count self w =
     w\<lparr>handlers := (handlers w)(self := (handlers w self)\<lparr>count := count (handlers w self) + 1\<rparr>)\<rparr>"

text \<open>
  \<^verbatim>\<open>on_message\<close>: the only \<^verbatim>\<open>except\<close> clause is for \<^verbatim>\<open>json.decoder.JSONDecodeError\<close>; an
  exception that is not an instance of it leaves the method before the counter is
  incremented.
\<close>

definition on_message ::
  "(string \<Rightarrow> exn + 'j) \<Rightarrow> ('c, 'j, 'a) listener_call \<Rightarrow> ref \<Rightarrow> string \<Rightarrow> ('c, 'a) world
     \<Rightarrow> ('c, 'a) outcome" where
  "on_message loads call self message w =
     (let w0 = logger DEBUG ''socket #%s recieved message #%s: %s''
                 [id_of w self, count_of w self, PStr message] w;
          (w1, raised) = on_message_try loads call self message w0
      in if except_clause JSONDecodeError raised
         then (increment_count self
                (logger WARNING ''socket #%s dropped message #%s due to improper format: %s''
                   [id_of w1 self, count_of w1 self, PStr message] w1), None)
         else if raised = None then (increment_count self w1, None)
         else (w1, raised))"

text \<open>\<^verbatim>\<open>list.remove(x)\<close> removes the first occurrence and raises \<^verbatim>\<open>ValueError\<close> if there is none.\<close>

definition list_remove :: "'x \<Rightarrow> 'x list \<Rightarrow> exn + 'x list" where
  "list_remove x xs = (if x \<in> set xs then Inr (remove1 x xs) else Inl ValueError)"

definition on_close :: "('c, 'a) hook_call \<Rightarrow> ref \<Rightarrow> ('c, 'a) world \<Rightarrow> ('c, 'a) outcome" where
  "on_close call self w =
     (case list_remove self (sockets (router w)) of
        Inl e \<Rightarrow> (w, Some e)
      | Inr xs \<Rightarrow>
          (let w1 = w\<lparr>router := (router w)\<lparr>sockets := xs\<rparr>\<rparr>;
               (w2, raised) = call_hook call (router_on_close (router w1)) self w1
           in if raised = None then (logger INFO ''Disconnected'' [] w2, None)
              else (w2, raised)))"

text \<open>
  \<^verbatim>\<open>emit\<close>: the event name, then \<^verbatim>\<open>json.dumps\<close> of the data, with nothing between; the
  text is given to the transport's \<^verbatim>\<open>write_message\<close>, which is recorded.
\<close>

definition to_send :: "('j \<Rightarrow> string) \<Rightarrow> string \<Rightarrow> 'j \<Rightarrow> string" where
  "to_send dumps event data = event @ dumps data"

definition emit :: "('j \<Rightarrow> string) \<Rightarrow> ref \<Rightarrow> string \<Rightarrow> 'j \<Rightarrow> ('c, 'a) world \<Rightarrow> ('c, 'a) world" where
  "emit dumps self event data w = w\<lparr>written := written w @ [(self, to_send dumps event data)]\<rparr>"

subsection \<open>Sequences of registrations and removals\<close>

text \<open>
  A run of the two operations that change the socket list, \<^verbatim>\<open>register_socket\<close> and the
  \<^verbatim>\<open>sockets.remove\<close> of \<^verbatim>\<open>on_close\<close>, collecting the ids that the registrations return. A
  removal that raises leaves the router as it was.
\<close>

datatype op = Register ref | Remove ref

fun is_Register :: "op \<Rightarrow> bool" where
  "is_Register (Register s) = True"
| "is_Register (Remove s) = False"

fun run :: "op list \<Rightarrow> 'c router \<Rightarrow> int list \<times> 'c router" where
  "run [] r = ([], r)"
| "run (Register s # ops) r =
     (let (i, r1) = register_socket s r;
          (ids, r2) = run ops r1
      in (i # ids, r2))"
| "run (Remove s # ops) r =
     (case list_remove s (sockets r) of
        Inl e \<Rightarrow> run ops r
      | Inr xs \<Rightarrow> run ops (r\<lparr>sockets := xs\<rparr>))"

text \<open>A state before any connection: a new router, handlers as \<^verbatim>\<open>initialize\<close> leaves them.\<close>

definition start :: "'a \<Rightarrow> ('c, 'a) world" where
  "start a = \<lparr>router = init_router, handlers = (\<lambda>s. initialize), logged = [], written = [], app = a\<rparr>"

text \<open>A callable that records its call in the application's state and returns.\<close>

definition recording_listener :: "(string, 'j, string list) listener_call" where
  "recording_listener f data socket w = (w\<lparr>app := app w @ [f]\<rparr>, None)"

definition recording_hook :: "(string, string list) hook_call" where
  "recording_hook f socket w = (w\<lparr>app := app w @ [f]\<rparr>, None)"

text \<open>A listener that records its call and then raises the given exception.\<close>

definition raising_listener :: "exn \<Rightarrow> (string, 'j, string list) listener_call" where
  "raising_listener e f data socket w = (w\<lparr>app := app w @ [f]\<rparr>, Some e)"

section \<open>Properties\<close>

subsection \<open>Connection ids\<close>

lemma register_socket_eq:
  "register_socket s r =
     (next_sid r, r\<lparr>sockets := sockets r @ [s], next_sid := next_sid r + 1\<rparr>)"
  by (simp add: register_socket_def Let_def)

lemma run_ids:
  "fst (run ops r) = map (\<lambda>k. next_sid r + int k) [0..<length (filter is_Register ops)]"
proof (induction ops arbitrary: r)
  case Nil
  then show ?case by simp
next
  case (Cons x ops)
  show ?case
  proof (cases x)
    case (Register s)
    have "[0..<Suc (length (filter is_Register ops))]
            = 0 # map Suc [0..<length (filter is_Register ops)]"
      by (simp add: upt_conv_Cons map_Suc_upt del: upt_Suc)
    then show ?thesis using Register Cons.IH
      by (simp add: register_socket_eq split_beta del: upt_Suc)
  next
    case (Remove s)
    then show ?thesis using Cons.IH
      by (simp split: sum.splits)
  qed
qed

text \<open>
  C5. Starting from a new router, in every sequence of registrations and removals the
  registrations return the ids 0, 1, ..., n - 1 in order, n being the number of
  registrations in the sequence: each id is one more than the one before, and no removal
  makes an id come back.
\<close>

theorem register_socket_ids_sequential:
  "fst (run ops (init_router :: 'c router)) = map int [0..<length (filter is_Register ops)]"
  using run_ids [of ops "init_router :: 'c router"] by (simp add: init_router_def)

text \<open>Register three sockets, remove the second, register a fourth: its id is 3, not 1.\<close>

theorem register_socket_ids_sequential_witness:
  "fst (run [Register 10, Register 11, Register 12, Remove 11, Register 13]
          (init_router :: string router)) = [0, 1, 2, 3]"
  using register_socket_ids_sequential
          [of "[Register 10, Register 11, Register 12, Remove 11, Register 13]"]
  by (simp add: upt_rec)

subsection \<open>Listeners and dispatch\<close>

text \<open>
  C6. Registering a listener never fails and the last registration wins: after
  \<^verbatim>\<open>register_listener(x, h1)\<close> and then \<^verbatim>\<open>register_listener(x, h2)\<close> the table maps \<open>x\<close>
  to \<open>h2\<close> (a dictionary holds one value for a key), and dispatching \<open>x\<close> is calling
  \<open>h2\<close> and nothing else: the result mentions no call of \<open>h1\<close>.
\<close>

theorem register_listener_last_wins:
  \<open>listeners (register_listener x h2 (register_listener x h1 r)) x = Some h2
   \<and> on_received_message call x d s
         (w\<lparr>router := register_listener x h2 (register_listener x h1 (router w))\<rparr>)
       = (let (w1, raised) =
                call h2 d s (w\<lparr>router := register_listener x h2 (register_listener x h1 (router w))\<rparr>)
          in if except_clause KeyError raised
             then (logger WARNING ''No listener was found for event "%s"'' [PStr x] w1, None)
             else (w1, raised))\<close>
  by (simp add: register_listener_def on_received_message_def call_listener_def caught_class_def)

text \<open>With listeners that record their calls, only \<open>h2\<close> is recorded.\<close>

theorem register_listener_last_wins_witness:
  "app (fst (on_received_message recording_listener ''x'' () 0
         ((start [])\<lparr>router := register_listener ''x'' ''h2''
                                  (register_listener ''x'' ''h1'' (router (start [])))\<rparr>)))
     = [''h2'']"
  using register_listener_last_wins
          [of "''x''" "''h2''" "''h1''" init_router recording_listener "()" 0 "start []"]
  by (simp add: recording_listener_def start_def except_clause_def)

text \<open>
  C7. Dispatching an event that has no listener raises nothing to the caller: the
  \<^verbatim>\<open>KeyError\<close> of the lookup is caught, one warning is logged, no callable is called and
  nothing else changes.
\<close>

theorem dispatch_without_listener:
  \<open>listeners (router w) event = None \<Longrightarrow>
     on_received_message call event data socket w
       = (logger WARNING ''No listener was found for event "%s"'' [PStr event] w, None)\<close>
  by (simp add: on_received_message_def call_listener_def caught_class_def except_clause_def)

theorem dispatch_without_listener_witness:
  \<open>listeners (router (start [] :: (string, string list) world)) ''x'' = None
   \<and> on_received_message recording_listener ''x'' () 0 (start [])
       = (logger WARNING ''No listener was found for event "%s"'' [PStr ''x''] (start []), None)\<close>
proof -
  have h: "listeners (router (start [] :: (string, string list) world)) ''x'' = None"
    by (simp add: start_def init_router_def)
  show ?thesis
    using h dispatch_without_listener [OF h, of recording_listener "()" 0] by simp
qed

text \<open>
  C9, as the code has it. When the event has a listener and the listener raises an
  exception, the router swallows it and logs that no listener was found exactly when the
  exception is an instance of \<^verbatim>\<open>KeyError\<close>: \<^verbatim>\<open>KeyError\<close> itself or a class that derives from
  it. An exception that is not an instance of \<^verbatim>\<open>KeyError\<close>, \<^verbatim>\<open>IndexError\<close> included, reaches
  the caller of \<^verbatim>\<open>on_received_message\<close>. In both cases what the listener did before it
  raised stays done.
\<close>

theorem listener_KeyError_swallowed:
  \<open>listeners (router w) event = Some h \<Longrightarrow> call h data socket w = (w1, Some e) \<Longrightarrow>
     on_received_message call event data socket w
       = (if isinstance e KeyError
          then (logger WARNING ''No listener was found for event "%s"'' [PStr event] w1, None)
          else (w1, Some e))\<close>
  by (simp add: on_received_message_def call_listener_def caught_class_def except_clause_def)

text \<open>A listener that raises \<^verbatim>\<open>KeyError\<close>, and one that raises \<^verbatim>\<open>IndexError\<close>.\<close>

theorem listener_KeyError_swallowed_witness:
  \<open>on_received_message (raising_listener KeyError) ''x'' () 0
       ((start [])\<lparr>router := register_listener ''x'' ''h'' init_router\<rparr>)
     = (logger WARNING ''No listener was found for event "%s"'' [PStr ''x'']
          ((start [])\<lparr>router := register_listener ''x'' ''h'' init_router, app := [''h'']\<rparr>), None)
   \<and> on_received_message (raising_listener IndexError) ''x'' () 0
       ((start [])\<lparr>router := register_listener ''x'' ''h'' init_router\<rparr>)
     = ((start [])\<lparr>router := register_listener ''x'' ''h'' init_router, app := [''h'']\<rparr>,
        Some IndexError)\<close>
  using listener_KeyError_swallowed
          [of "(start [])\<lparr>router := register_listener ''x'' ''h'' init_router\<rparr>" "''x''" "''h''"
              "raising_listener KeyError" "()" 0
              "(start [])\<lparr>router := register_listener ''x'' ''h'' init_router, app := [''h'']\<rparr>"
              KeyError]
        listener_KeyError_swallowed
          [of "(start [])\<lparr>router := register_listener ''x'' ''h'' init_router\<rparr>" "''x''" "''h''"
              "raising_listener IndexError" "()" 0
              "(start [])\<lparr>router := register_listener ''x'' ''h'' init_router, app := [''h'']\<rparr>"
              IndexError]
  by (simp add: raising_listener_def register_listener_def start_def)

text \<open>
  The claim as stated fails for an exception of a different type that derives from
  \<^verbatim>\<open>KeyError\<close>: a listener raises an instance of \<^verbatim>\<open>class Missing(KeyError)\<close>, which is not
  the class \<^verbatim>\<open>KeyError\<close>, and the router swallows it all the same.
\<close>

theorem listener_KeyError_subclass_counterexample:
  \<open>Derived ''Missing'' [KeyError] \<noteq> KeyError
   \<and> on_received_message (raising_listener (Derived ''Missing'' [KeyError])) ''x'' () 0
       ((start [])\<lparr>router := register_listener ''x'' ''h'' init_router\<rparr>)
     = (logger WARNING ''No listener was found for event "%s"'' [PStr ''x'']
          ((start [])\<lparr>router := register_listener ''x'' ''h'' init_router, app := [''h'']\<rparr>), None)\<close>
  by (simp add: on_received_message_def call_listener_def caught_class_def except_clause_def
        raising_listener_def register_listener_def start_def)

text \<open>
  C8. \<^verbatim>\<open>on\<close> with an argument that is neither a string nor a callable raises
  \<^verbatim>\<open>TypeError\<close> at once and leaves the router as it was. With a string it returns the
  decorator, which registers the function it is applied to under that string; with a
  callable that has a name it registers the callable under its own name and returns it.
\<close>

theorem on_registers_or_raises:
  "on name Other r = (r, Inl TypeError)
   \<and> on name (Str s) r = (r, Inr (Decorator s))
   \<and> decorator s f r = (register_listener s f r, f)
   \<and> listeners (register_listener s f r) s = Some f
   \<and> (name f = Some n \<longrightarrow>
         on name (Callable f) r = (register_listener n f r, Inr (Function f)))"
  by (simp add: decorator_def register_listener_def)

theorem on_registers_or_raises_witness:
  "on Some Other (init_router :: string router) = (init_router, Inl TypeError)
   \<and> on Some (Str ''event'') (init_router :: string router) = (init_router, Inr (Decorator ''event''))
   \<and> listeners (fst (decorator ''event'' ''listener'' (init_router :: string router))) ''event''
        = Some ''listener''
   \<and> on Some (Callable ''event'') (init_router :: string router)
        = (register_listener ''event'' ''event'' init_router, Inr (Function ''event''))"
  using on_registers_or_raises [of Some "init_router :: string router" "''event''" "''listener''" "''event''"]
        on_registers_or_raises [of Some "init_router :: string router" "''event''" "''event''" "''event''"]
  by simp

subsection \<open>Looking a socket up, and closing one\<close>

lemma get_socket_by_id_cases:
  "(int (length (sockets r)) \<le> i \<longrightarrow> get_socket_by_id i r = None)
   \<and> (0 \<le> i \<and> i < int (length (sockets r)) \<longrightarrow>
          get_socket_by_id i r = Some (sockets r ! nat i))
   \<and> (- int (length (sockets r)) \<le> i \<and> i < 0 \<longrightarrow>
          get_socket_by_id i r = Some (sockets r ! nat (int (length (sockets r)) + i)))
   \<and> (i < - int (length (sockets r)) \<longrightarrow> get_socket_by_id i r = None)"
  by (auto simp add: get_socket_by_id_def Let_def add.commute)

text \<open>Three connections are opened, with ids 0, 1 and 2, and the first is closed.\<close>

lemma three_opened_first_closed:
  "fst (on_close call 10
     (fst (add_to_router call 12 (fst (add_to_router call 11 (fst (add_to_router call 10 (start a))))))))
   = w \<Longrightarrow>
   sockets (router w) = [11, 12] \<and> id_attr (handlers w 11) = Some 1
     \<and> id_attr (handlers w 12) = Some 2"
  by (auto simp add: add_to_router_def on_close_def register_socket_def list_remove_def
        start_def init_router_def logger_def initialize_def Let_def)

text \<open>
  C10. \<^verbatim>\<open>get_socket_by_id\<close> indexes the list of live sockets. An id at or beyond the
  length of the list gives \<^verbatim>\<open>None\<close>; an id from 0 below the length gives the socket at
  that position; a negative id no smaller than minus the length counts from the end of
  the list (and a smaller one gives \<^verbatim>\<open>None\<close>). The position is not the id: after three
  connections are opened and the first is closed, id 1 gives the socket whose own id is
  2, not the socket that was given id 1.
\<close>

theorem get_socket_by_id_positional:
  "(int (length (sockets r)) \<le> i \<longrightarrow> get_socket_by_id i r = None)
   \<and> (0 \<le> i \<and> i < int (length (sockets r)) \<longrightarrow>
          get_socket_by_id i r = Some (sockets r ! nat i))
   \<and> (- int (length (sockets r)) \<le> i \<and> i < 0 \<longrightarrow>
          get_socket_by_id i r = Some (sockets r ! nat (int (length (sockets r)) + i)))
   \<and> (i < - int (length (sockets r)) \<longrightarrow> get_socket_by_id i r = None)
   \<and> (fst (on_close call 10
          (fst (add_to_router call 12
            (fst (add_to_router call 11 (fst (add_to_router call 10 (start a)))))))) = w \<longrightarrow>
        get_socket_by_id 1 (router w) = Some 12
        \<and> id_attr (handlers w 12) = Some 2 \<and> id_attr (handlers w 11) = Some 1)"
proof -
  have "get_socket_by_id 1 (router w) = Some 12" if "sockets (router w) = [11, 12]"
    using that by (simp add: get_socket_by_id_def)
  then show ?thesis
    using get_socket_by_id_cases [of r i] three_opened_first_closed [of call a w] by blast
qed

text \<open>In a router with the sockets 11 and 12: ids 2 and -3 give nothing, -1 gives the last.\<close>

theorem get_socket_by_id_positional_witness:
  "get_socket_by_id 2 ((init_router :: string router)\<lparr>sockets := [11, 12]\<rparr>) = None
   \<and> get_socket_by_id 1 ((init_router :: string router)\<lparr>sockets := [11, 12]\<rparr>) = Some 12
   \<and> get_socket_by_id (- 1) ((init_router :: string router)\<lparr>sockets := [11, 12]\<rparr>) = Some 12
   \<and> get_socket_by_id (- 3) ((init_router :: string router)\<lparr>sockets := [11, 12]\<rparr>) = None
   \<and> get_socket_by_id 1
        (router (fst (on_close recording_hook 10
          (fst (add_to_router recording_hook 12
            (fst (add_to_router recording_hook 11
              (fst (add_to_router recording_hook 10 (start []))))))))))
      = Some 12"
  using get_socket_by_id_positional
          [of "(init_router :: string router)\<lparr>sockets := [11, 12]\<rparr>" 2 recording_hook "[]"
              "fst (on_close recording_hook 10
                (fst (add_to_router recording_hook 12
                  (fst (add_to_router recording_hook 11
                    (fst (add_to_router recording_hook 10 (start []))))))))"]
        get_socket_by_id_positional
          [of "(init_router :: string router)\<lparr>sockets := [11, 12]\<rparr>" 1 recording_hook "[]"
              "start []"]
        get_socket_by_id_positional
          [of "(init_router :: string router)\<lparr>sockets := [11, 12]\<rparr>" "- 1" recording_hook "[]"
              "start []"]
        get_socket_by_id_positional
          [of "(init_router :: string router)\<lparr>sockets := [11, 12]\<rparr>" "- 3" recording_hook "[]"
              "start []"]
  by simp

text \<open>
  C4, as the code has it. Closing a connection that is not in the router's list raises
  \<^verbatim>\<open>ValueError\<close> out of \<^verbatim>\<open>on_close\<close>: \<^verbatim>\<open>list.remove\<close> is not guarded, nothing is changed or
  logged and the close hook is not called. Closing a connection that is in the list takes
  its first occurrence out and then calls the hook on that state; with the hook that
  \<^verbatim>\<open>__init__\<close> sets, nothing is raised.
\<close>

theorem on_close_removes_or_raises:
  "(self \<notin> set (sockets (router w)) \<longrightarrow> on_close call self w = (w, Some ValueError))
   \<and> (self \<in> set (sockets (router w)) \<longrightarrow>
        on_close call self w
          = (let (w2, raised) =
                   call_hook call (router_on_close (router w)) self
                     (w\<lparr>router := (router w)\<lparr>sockets := remove1 self (sockets (router w))\<rparr>\<rparr>)
             in if raised = None then (logger INFO ''Disconnected'' [] w2, None) else (w2, raised)))
   \<and> (self \<in> set (sockets (router w)) \<and> router_on_close (router w) = Undefined_close \<longrightarrow>
        snd (on_close call self w) = None
        \<and> sockets (router (fst (on_close call self w))) = remove1 self (sockets (router w)))"
  by (simp add: on_close_def list_remove_def Let_def logger_def)

theorem on_close_removes_or_raises_witness:
  "on_close recording_hook 10 (start []) = (start [], Some ValueError)
   \<and> snd (on_close recording_hook 10
          ((start [])\<lparr>router := (init_router :: string router)\<lparr>sockets := [10, 11]\<rparr>\<rparr>)) = None
   \<and> sockets (router (fst (on_close recording_hook 10
          ((start [])\<lparr>router := (init_router :: string router)\<lparr>sockets := [10, 11]\<rparr>\<rparr>)))) = [11]"
  using on_close_removes_or_raises [of 10 "start []" recording_hook]
        on_close_removes_or_raises
          [of 10 "(start [])\<lparr>router := (init_router :: string router)\<lparr>sockets := [10, 11]\<rparr>\<rparr>"
              recording_hook]
  by (simp add: start_def init_router_def logger_def)

text \<open>
  The claim as the specification states it fails: a connection is opened and closed, which
  raises nothing, and closed once more, which raises \<^verbatim>\<open>ValueError\<close>.
\<close>

theorem on_close_twice_counterexample:
  "snd (on_close recording_hook 10 (fst (add_to_router recording_hook 10 (start [])))) = None
   \<and> snd (on_close recording_hook 10
          (fst (on_close recording_hook 10 (fst (add_to_router recording_hook 10 (start []))))))
       = Some ValueError"
  by (simp add: add_to_router_def on_close_def register_socket_def list_remove_def
        start_def init_router_def logger_def initialize_def Let_def)

subsection \<open>Messages that the pattern does not match\<close>

lemma backtrack_no_bracket:
  "\<forall>c\<in>set s. \<not> bracket c \<Longrightarrow> backtrack s k = None"
proof (induction k)
  case 0
  then show ?case by simp
next
  case (Suc k)
  have "group2 (drop (Suc k) s) = None"
  proof (cases "drop (Suc k) s" rule: group2.cases)
    case (1 b c rest)
    then have "b \<in> set (drop (Suc k) s)" by simp
    then have "b \<in> set s" by (rule in_set_dropD)
    with Suc.prems have "\<not> bracket b" by simp
    with 1 show ?thesis by simp
  qed simp_all
  with Suc show ?case by simp
qed

lemma on_message_no_match:
  "re_match m = None \<Longrightarrow>
     on_message loads call self m w
       = (logger DEBUG ''socket #%s recieved message #%s: %s''
            [id_of w self, count_of w self, PStr m] w, Some AttributeError)"
  by (simp add: on_message_def on_message_try_def parse_def Let_def except_clause_def)

text \<open>
  Where the pattern matches and \<^verbatim>\<open>json.loads\<close> rejects the second group, the message is
  dropped as the \<^verbatim>\<open>except\<close> clause intends: a warning, the counter, no exception.
\<close>

lemma on_message_invalid_json:
  \<open>re_match m = Some (event, encoded_data) \<Longrightarrow> loads encoded_data = Inl JSONDecodeError \<Longrightarrow>
     on_message loads call self m w
       = (increment_count self
            (logger WARNING ''socket #%s dropped message #%s due to improper format: %s''
               [id_of w self, count_of w self, PStr m]
               (logger DEBUG ''socket #%s recieved message #%s: %s''
                  [id_of w self, count_of w self, PStr m] w)), None)\<close>
  by (simp add: on_message_def on_message_try_def parse_def Let_def id_of_def count_of_def logger_def
        except_clause_def)

text \<open>
  C3, where the code departs from it. A message without any bracket (the empty message
  among them), and the messages \<^verbatim>\<open>{"yer": 4}\<close> and \<^verbatim>\<open>[dsa\<close> of the module's own list of
  non-examples, do not match the pattern: \<^verbatim>\<open>match\<close> is \<^verbatim>\<open>None\<close>, \<^verbatim>\<open>match.group(1)\<close> raises
  \<^verbatim>\<open>AttributeError\<close>, and no \<^verbatim>\<open>except\<close> clause of \<^verbatim>\<open>on_message\<close> is for it. The exception
  leaves \<^verbatim>\<open>on_message\<close>; only the debug line has been logged, and the message counter is
  not incremented.
\<close>

theorem on_message_unmatched_raises:
  \<open>((\<forall>c\<in>set m. \<not> bracket c) \<longrightarrow>
      on_message loads call self m w
        = (logger DEBUG ''socket #%s recieved message #%s: %s''
             [id_of w self, count_of w self, PStr m] w, Some AttributeError))
   \<and> snd (on_message loads call self ''{"yer": 4}'' w) = Some AttributeError
   \<and> snd (on_message loads call self ''[dsa'' w) = Some AttributeError\<close>
proof -
  have a: \<open>re_match ''{"yer": 4}'' = None\<close>
    by (simp add: re_match_def dot_def bracket_def)
  have b: \<open>re_match ''[dsa'' = None\<close>
    by (simp add: re_match_def dot_def bracket_def)
  have c: "re_match m = None" if "\<forall>c\<in>set m. \<not> bracket c"
    using that by (simp add: re_match_def backtrack_no_bracket)
  show ?thesis
    using on_message_no_match [OF a, of loads call self w]
          on_message_no_match [OF b, of loads call self w]
          on_message_no_match [OF c, of loads call self w]
    by simp
qed

text \<open>The non-example \<^verbatim>\<open>asdf"hohoho"\<close> and the empty message, on a new connection.\<close>

theorem on_message_unmatched_raises_witness:
  \<open>snd (on_message (\<lambda>s. Inl JSONDecodeError :: exn + unit) recording_listener 0
          ''asdf"hohoho"'' (start []))
     = Some AttributeError
   \<and> on_message (\<lambda>s. Inl JSONDecodeError :: exn + unit) recording_listener 0 [] (start [])
     = (logger DEBUG ''socket #%s recieved message #%s: %s'' [PNone, PInt 0, PStr []] (start []),
        Some AttributeError)\<close>
  using on_message_unmatched_raises
          [of \<open>''asdf"hohoho"''\<close> "\<lambda>s. Inl JSONDecodeError :: exn + unit" recording_listener 0 "start []"]
        on_message_unmatched_raises
          [of "[]" "\<lambda>s. Inl JSONDecodeError :: exn + unit" recording_listener 0 "start []"]
  by (simp add: bracket_def id_of_def count_of_def start_def initialize_def)

subsection \<open>Where the pattern splits a message\<close>

lemma takeWhile_split:
  "k \<le> length (takeWhile P s) \<Longrightarrow> takeWhile P s = take k s @ takeWhile P (drop k s)"
proof (induction s arbitrary: k)
  case Nil
  then show ?case by simp
next
  case (Cons x xs)
  then show ?case by (cases k) (auto split: if_splits)
qed

lemma group2_Some:
  "group2 xs = Some g \<Longrightarrow>
     \<exists>b c rest. xs = b # c # rest \<and> bracket b \<and> dot c \<and> g = b # takeWhile dot (c # rest)"
  by (cases xs rule: group2.cases) (auto split: if_splits)

lemma backtrack_Some:
  "backtrack s n = Some (ev, enc) \<Longrightarrow>
     \<exists>k. 0 < k \<and> k \<le> n \<and> ev = take k s \<and> group2 (drop k s) = Some enc
          \<and> (\<forall>j. k < j \<and> j \<le> n \<longrightarrow> group2 (drop j s) = None)"
proof (induction n)
  case 0
  then show ?case by simp
next
  case (Suc n)
  show ?case
  proof (cases "group2 (drop (Suc n) s)")
    case None
    with Suc.prems have "backtrack s n = Some (ev, enc)" by simp
    from Suc.IH [OF this] obtain k where
      k: "0 < k" "k \<le> n" "ev = take k s" "group2 (drop k s) = Some enc"
         "\<forall>j. k < j \<and> j \<le> n \<longrightarrow> group2 (drop j s) = None"
      by blast
    have "\<forall>j. k < j \<and> j \<le> Suc n \<longrightarrow> group2 (drop j s) = None"
      using k(5) None by (auto simp add: le_Suc_eq)
    with k show ?thesis by (intro exI [of _ k]) simp
  next
    case (Some g)
    with Suc.prems have "ev = take (Suc n) s" "g = enc" by simp_all
    with Some show ?thesis by (intro exI [of _ "Suc n"]) simp
  qed
qed

text \<open>
  Whenever the pattern matches, the two groups together are the first line of the
  message, group 1 is not empty, group 2 starts with a bracket, and no later position of
  group 2 could have started it: the split is at the last bracket of the line that has a
  character after it, not at the first.
\<close>

lemma re_match_last_bracket:
  assumes "re_match s = Some (ev, enc)"
  shows "ev \<noteq> [] \<and> ev @ enc = takeWhile dot s \<and> bracket (hd enc)
         \<and> (\<forall>j. 0 < j \<longrightarrow> group2 (drop j enc) = None)"
proof -
  let ?n = "length (takeWhile dot s)"
  from assms have "backtrack s ?n = Some (ev, enc)" by (simp add: re_match_def)
  from backtrack_Some [OF this] obtain k where
    k: "0 < k" "k \<le> ?n" "ev = take k s" "group2 (drop k s) = Some enc"
    and last: "\<forall>j. k < j \<and> j \<le> ?n \<longrightarrow> group2 (drop j s) = None"
    by blast
  from group2_Some [OF k(4)] obtain b c rest where
    d: "drop k s = b # c # rest" "bracket b" "dot c" "enc = b # takeWhile dot (c # rest)"
    by blast
  have "dot b" using d(2) by (auto simp add: bracket_def dot_def)
  with d have enc: "enc = takeWhile dot (drop k s)" by simp
  have whole: "takeWhile dot s = ev @ enc"
    using takeWhile_split [OF k(2)] k(3) enc by simp
  have "?n \<le> length s" by (rule length_takeWhile_le)
  with k have "ev \<noteq> []" by auto
  moreover have "bracket (hd enc)" using d by simp
  moreover have "group2 (drop j enc) = None" if "0 < j" for j
  proof (rule ccontr)
    assume "group2 (drop j enc) \<noteq> None"
    then obtain g where "group2 (drop j enc) = Some g" by blast
    from group2_Some [OF this] obtain b' c' rest' where
      e: "drop j enc = b' # c' # rest'" "bracket b'" "dot c'"
      by blast
    then have "length (drop j enc) = Suc (Suc (length rest'))" by simp
    then have len: "j + 2 \<le> length enc" by simp
    have "drop k s = enc @ dropWhile dot (drop k s)"
      using enc by simp
    then have "drop j (drop k s) = drop j (enc @ dropWhile dot (drop k s))"
      by simp
    then have "drop (k + j) s = drop j (enc @ dropWhile dot (drop k s))"
      by (simp add: add.commute)
    also have "\<dots> = b' # c' # rest' @ dropWhile dot (drop k s)"
      using e(1) len by simp
    finally have "group2 (drop (k + j) s) \<noteq> None"
      using e by simp
    moreover have "k + j \<le> ?n" using whole len k(3) k(2) \<open>?n \<le> length s\<close>
      by (simp add: min_def split: if_splits)
    ultimately show False using last that by auto
  qed
  ultimately show ?thesis using whole by simp
qed

subsection \<open>Messages with more than one bracket\<close>

text \<open>
  C1, where the code departs from it. For the payload \<^verbatim>\<open>[[1]]\<close>, which \<^verbatim>\<open>json.dumps\<close>
  writes as the text \<^verbatim>\<open>[[1]]\<close>, \<^verbatim>\<open>emit\<close> with the event \<^verbatim>\<open>e\<close> sends \<^verbatim>\<open>e[[1]]\<close>. The greedy
  first group of the pattern takes \<^verbatim>\<open>e[\<close> and leaves \<^verbatim>\<open>[1]]\<close> for \<^verbatim>\<open>json.loads\<close>: whatever
  \<^verbatim>\<open>json.loads\<close> makes of it, the event parsed back is not \<^verbatim>\<open>e\<close>, and when it raises
  \<^verbatim>\<open>JSONDecodeError\<close> (as Python's does, for the extra bracket) the message is dropped.
\<close>

theorem emit_nested_not_parsed_back:
  "dumps p = ''[[1]]'' \<Longrightarrow>
     parse loads (to_send dumps ''e'' p)
       = (case loads ''[1]]'' of Inl e \<Rightarrow> Inl e | Inr data \<Rightarrow> Inr (''e['', data))
     \<and> parse loads (to_send dumps ''e'' p) \<noteq> Inr (''e'', p)
     \<and> (loads ''[1]]'' = Inl JSONDecodeError \<longrightarrow>
          snd (on_message loads call self (to_send dumps ''e'' p) w) = None
          \<and> logged (fst (on_message loads call self (to_send dumps ''e'' p) w))
              = logged w
                @ [(DEBUG, ''socket #%s recieved message #%s: %s'',
                    [id_of w self, count_of w self, PStr ''e[[1]]'']),
                   (WARNING, ''socket #%s dropped message #%s due to improper format: %s'',
                    [id_of w self, count_of w self, PStr ''e[[1]]''])])"
proof -
  assume d: "dumps p = ''[[1]]''"
  have m: "re_match ''e[[1]]'' = Some (''e['', ''[1]]'')"
    by (simp add: re_match_def dot_def bracket_def)
  have s: "to_send dumps ''e'' p = ''e[[1]]''"
    using d by (simp add: to_send_def)
  have 1: "parse loads ''e[[1]]''
             = (case loads ''[1]]'' of Inl e \<Rightarrow> Inl e | Inr data \<Rightarrow> Inr (''e['', data))"
    using m by (simp add: parse_def)
  have 2: "parse loads ''e[[1]]'' \<noteq> Inr (''e'', p)"
    using 1 by (simp split: sum.splits)
  have 3: "snd (on_message loads call self ''e[[1]]'' w) = None
           \<and> logged (fst (on_message loads call self ''e[[1]]'' w))
              = logged w
                @ [(DEBUG, ''socket #%s recieved message #%s: %s'',
                    [id_of w self, count_of w self, PStr ''e[[1]]'']),
                   (WARNING, ''socket #%s dropped message #%s due to improper format: %s'',
                    [id_of w self, count_of w self, PStr ''e[[1]]''])]"
    if "loads ''[1]]'' = Inl JSONDecodeError"
    using m that on_message_invalid_json [of "''e[[1]]''" "''e[''" "''[1]]''" loads call self w]
    by (simp add: increment_count_def logger_def)
  show ?thesis
    using 1 2 3 s by simp
qed

theorem emit_nested_not_parsed_back_witness:
  "parse (\<lambda>s. Inl JSONDecodeError) (to_send (\<lambda>p. p) ''e'' ''[[1]]'')
     = (Inl JSONDecodeError :: exn + string \<times> string)
   \<and> snd (on_message (\<lambda>s. Inl JSONDecodeError :: exn + string) recording_listener 0
          (to_send (\<lambda>p. p) ''e'' ''[[1]]'') (start [])) = None"
  using emit_nested_not_parsed_back
          [of "\<lambda>p. p" "''[[1]]''" "\<lambda>s. Inl JSONDecodeError" recording_listener 0 "start []"]
  by simp

text \<open>
  C2, where the code departs from it. On the specification's own example the pattern
  does not split at the first bracket: the greedy first group runs to the last bracket
  that has a character after it, so group 1 is \<^verbatim>\<open>#!@c["test", {"is": \<close> and group 2 is
  \<^verbatim>\<open>["a", 4]}]\<close>. Whatever \<^verbatim>\<open>json.loads\<close> makes of that text, the event is not \<^verbatim>\<open>#!@c\<close>.
  Lemma \<open>re_match_last_bracket\<close> above is the same fact for every message.
\<close>

theorem parse_splits_at_last_bracket:
  \<open>re_match ''#!@c["test", {"is": ["a", 4]}]''
     = Some (''#!@c["test", {"is": '', ''["a", 4]}]'')
   \<and> parse loads ''#!@c["test", {"is": ["a", 4]}]''
     = (case loads ''["a", 4]}]'' of
          Inl e \<Rightarrow> Inl e
        | Inr data \<Rightarrow> Inr (''#!@c["test", {"is": '', data))
   \<and> parse loads ''#!@c["test", {"is": ["a", 4]}]'' \<noteq> Inr (''#!@c'', d)\<close>
proof -
  have m: \<open>re_match ''#!@c["test", {"is": ["a", 4]}]''
             = Some (''#!@c["test", {"is": '', ''["a", 4]}]'')\<close>
    by (simp add: re_match_def dot_def bracket_def)
  show ?thesis
    using m by (simp add: parse_def split: sum.splits)
qed

end
